theory Spec2Isabelle
  imports Complex_Main "HOL-Library.Sublist" "HOL-Library.AList"
begin

section \<open>ECMAScript strings\<close>

text \<open>
  The handlers of \<^verbatim>\<open>registerRoutes\<close> work on ECMAScript strings, which are sequences of
  UTF-16 code units. The model represents the code units U+0000 .. U+00FF by the type
  \<^typ>\<open>char\<close> (\<open>code c\<close> is the number of the code unit) and gives the character classes and
  case mappings of ECMAScript on that range:
  \<^item> \<^verbatim>\<open>\s\<close> is TAB, LF, VT, FF, CR, SPACE and NO-BREAK SPACE; \<^verbatim>\<open>trim\<close> strips the same set;
  \<^item> \<^verbatim>\<open>\d\<close> is \<open>0-9\<close> and \<^verbatim>\<open>\w\<close> is \<open>A-Z a-z 0-9 _\<close>;
  \<^item> \<^verbatim>\<open>toLowerCase\<close> maps \<open>A-Z\<close>, U+00C0 .. U+00D6 and U+00D8 .. U+00DE to the code unit 32
    above;
  \<^item> \<^verbatim>\<open>toUpperCase\<close> maps \<open>a-z\<close>, U+00E0 .. U+00F6 and U+00F8 .. U+00FE to the code unit 32
    below, and U+00DF (sharp s) to the two code units \<open>SS\<close>.
  Two code units of the range, U+00B5 and U+00FF, have upper-case images outside it
  (U+039C and U+0178); the model leaves them unchanged.
\<close>

definition code :: "char \<Rightarrow> nat" where
  "code c = of_char c"

definition is_space :: "char \<Rightarrow> bool" where
  "is_space c = (code c = 9 \<or> code c = 10 \<or> code c = 11 \<or> code c = 12 \<or> code c = 13
     \<or> code c = 32 \<or> code c = 160)"

definition is_digit :: "char \<Rightarrow> bool" where
  "is_digit c = (48 \<le> code c \<and> code c \<le> 57)"

definition is_word :: "char \<Rightarrow> bool" where
  "is_word c = ((65 \<le> code c \<and> code c \<le> 90) \<or> (97 \<le> code c \<and> code c \<le> 122)
     \<or> is_digit c \<or> code c = 95)"

definition toLowerCase_char :: "char \<Rightarrow> char" where
  "toLowerCase_char c =
     (if (65 \<le> code c \<and> code c \<le> 90) \<or> (192 \<le> code c \<and> code c \<le> 214)
         \<or> (216 \<le> code c \<and> code c \<le> 222)
      then char_of (code c + 32) else c)"

definition toUpperCase_char :: "char \<Rightarrow> string" where
  "toUpperCase_char c =
     (if code c = 223 then ''SS''
      else if (97 \<le> code c \<and> code c \<le> 122) \<or> (224 \<le> code c \<and> code c \<le> 246)
         \<or> (248 \<le> code c \<and> code c \<le> 254)
      then [char_of (code c - 32)] else [c])"

definition toLowerCase :: "string \<Rightarrow> string" where
  "toLowerCase s = map toLowerCase_char s"

definition toUpperCase :: "string \<Rightarrow> string" where
  "toUpperCase s = concat (map toUpperCase_char s)"

definition trim :: "string \<Rightarrow> string" where
  "trim s = rev (dropWhile is_space (rev (dropWhile is_space s)))"

definition startsWith :: "string \<Rightarrow> string \<Rightarrow> bool" where
  "startsWith s p = (take (length p) s = p)"

text \<open>
  \<^verbatim>\<open>s.split(/\s+/)\<close>: the pieces of \<open>s\<close> between the maximal runs of white space. A run at
  the start or at the end of \<open>s\<close> leaves an empty piece there, and the empty string gives
  the one piece \<open>""\<close>.
\<close>

function split_ws :: "string \<Rightarrow> string list" where
  "split_ws s =
     (if dropWhile (\<lambda>c. \<not> is_space c) s = [] then [s]
      else takeWhile (\<lambda>c. \<not> is_space c) s #
           split_ws (dropWhile is_space (dropWhile (\<lambda>c. \<not> is_space c) s)))"
  by pat_completeness auto
termination
proof (relation "measure length")
  show "wf (measure length)" by simp
next
  fix s :: string
  assume ne: "dropWhile (\<lambda>c. \<not> is_space c) s \<noteq> []"
  then obtain c r where cr: "dropWhile (\<lambda>c. \<not> is_space c) s = c # r"
    by (cases "dropWhile (\<lambda>c. \<not> is_space c) s") auto
  have "is_space c"
    using cr hd_dropWhile[of "\<lambda>c. \<not> is_space c" s] ne by auto
  then have "length (dropWhile is_space (c # r)) \<le> length r"
    using length_dropWhile_le[of is_space r] by simp
  moreover have "length (c # r) \<le> length s"
    using length_dropWhile_le[of "\<lambda>c. \<not> is_space c" s] cr by simp
  ultimately show
    "(dropWhile is_space (dropWhile (\<lambda>c. \<not> is_space c) s), s) \<in> measure length"
    using cr by simp
qed

declare split_ws.simps [simp del]

text \<open>\<^verbatim>\<open>s.split(d)\<close> for a separator \<open>d\<close> of one code unit.\<close>

fun split_on :: "char \<Rightarrow> string \<Rightarrow> string list" where
  "split_on d [] = [[]]"
| "split_on d (c # cs) =
     (if c = d then [] # split_on d cs
      else (case split_on d cs of [] \<Rightarrow> [[c]] | piece # pieces \<Rightarrow> (c # piece) # pieces))"

text \<open>\<^verbatim>\<open>xs.join(sep)\<close>.\<close>

fun join :: "string \<Rightarrow> string list \<Rightarrow> string" where
  "join sep [] = []"
| "join sep [x] = x"
| "join sep (x # y # ys) = x @ sep @ join sep (y # ys)"

section \<open>ECMAScript numbers\<close>

text \<open>
  A number is a finite value, an infinity or NaN. Finite values are modelled by exact
  rationals (the rounding of IEEE doubles and the sign of zero are not modelled).
\<close>

datatype jsnum = Num rat | PosInf | NegInf | NaN

fun js_add :: "jsnum \<Rightarrow> jsnum \<Rightarrow> jsnum" where
  "js_add NaN y = NaN"
| "js_add x NaN = NaN"
| "js_add (Num a) (Num b) = Num (a + b)"
| "js_add PosInf NegInf = NaN"
| "js_add NegInf PosInf = NaN"
| "js_add PosInf y = PosInf"
| "js_add x PosInf = PosInf"
| "js_add NegInf y = NegInf"
| "js_add x NegInf = NegInf"

fun js_mul :: "jsnum \<Rightarrow> jsnum \<Rightarrow> jsnum" where
  "js_mul NaN y = NaN"
| "js_mul x NaN = NaN"
| "js_mul (Num a) (Num b) = Num (a * b)"
| "js_mul (Num a) PosInf = (if a = 0 then NaN else if 0 < a then PosInf else NegInf)"
| "js_mul (Num a) NegInf = (if a = 0 then NaN else if 0 < a then NegInf else PosInf)"
| "js_mul PosInf (Num b) = (if b = 0 then NaN else if 0 < b then PosInf else NegInf)"
| "js_mul NegInf (Num b) = (if b = 0 then NaN else if 0 < b then NegInf else PosInf)"
| "js_mul PosInf PosInf = PosInf"
| "js_mul PosInf NegInf = NegInf"
| "js_mul NegInf PosInf = NegInf"
| "js_mul NegInf NegInf = PosInf"

fun js_div :: "jsnum \<Rightarrow> jsnum \<Rightarrow> jsnum" where
  "js_div NaN y = NaN"
| "js_div x NaN = NaN"
| "js_div (Num a) (Num b) =
     (if b = 0 then (if a = 0 then NaN else if 0 < a then PosInf else NegInf)
      else Num (a / b))"
| "js_div (Num a) PosInf = Num 0"
| "js_div (Num a) NegInf = Num 0"
| "js_div PosInf (Num b) = (if 0 \<le> b then PosInf else NegInf)"
| "js_div NegInf (Num b) = (if 0 \<le> b then NegInf else PosInf)"
| "js_div PosInf PosInf = NaN"
| "js_div PosInf NegInf = NaN"
| "js_div NegInf PosInf = NaN"
| "js_div NegInf NegInf = NaN"

fun js_lt :: "jsnum \<Rightarrow> jsnum \<Rightarrow> bool" where
  "js_lt NaN y = False"
| "js_lt x NaN = False"
| "js_lt (Num a) (Num b) = (a < b)"
| "js_lt x NegInf = False"
| "js_lt PosInf y = False"
| "js_lt NegInf y = True"
| "js_lt x PosInf = True"

text \<open>
  \<^verbatim>\<open>Number(x.toFixed(2))\<close>: the nearest multiple of 1/100, the larger one of two equally
  near ones (on the absolute value); values from \<open>10^21\<close> on, the infinities and NaN are
  printed and read back unchanged.
\<close>

definition round2 :: "rat \<Rightarrow> rat" where
  "round2 a = of_int \<lfloor>a * 100 + 1 / 2\<rfloor> / 100"

fun toFixed2 :: "jsnum \<Rightarrow> jsnum" where
  "toFixed2 (Num a) =
     (if 10 ^ 21 \<le> \<bar>a\<bar> then Num a
      else if a < 0 then Num (- round2 (- a)) else Num (round2 a))"
| "toFixed2 x = x"

text \<open>\<^verbatim>\<open>x || 0\<close> on a number: zero and NaN are falsy.\<close>

fun or_zero :: "jsnum \<Rightarrow> jsnum" where
  "or_zero NaN = Num 0"
| "or_zero x = x"

section \<open>Request validation\<close>

text \<open>
  Each handler parses the request body with its schema first; a body the schema rejects
  makes \<^verbatim>\<open>parse\<close> throw, and the handler answers with status 500. The schemas bound the
  length of the string from below (\<^verbatim>\<open>z.string().min(n)\<close>, in code units).
\<close>

datatype error = ValidationError

section \<open>Title Case Converter\<close>

definition stopWords :: "string set" where
  "stopWords = {''a'', ''an'', ''and'', ''as'', ''at'', ''but'', ''by'', ''for'', ''if'', ''in'',
     ''is'', ''it'', ''nor'', ''of'', ''on'', ''or'', ''so'', ''the'', ''to'', ''up'', ''yet''}"

text \<open>\<^verbatim>\<open>word.charAt(0).toUpperCase() + word.slice(1)\<close>\<close>

definition capitalize :: "string \<Rightarrow> string" where
  "capitalize word = toUpperCase (take 1 word) @ drop 1 word"

text \<open>The callback of \<^verbatim>\<open>words.map((word, index) => ...)\<close>.\<close>

definition convertWord :: "string list \<Rightarrow> nat \<times> string \<Rightarrow> string" where
  "convertWord words = (\<lambda>(index, word).
     if index = 0 \<or> int index = int (length words) - 1 then capitalize word
     else if word \<in> stopWords then word
     else capitalize word)"

definition convertedWords :: "string list \<Rightarrow> string list" where
  "convertedWords words = map (convertWord words) (enumerate 0 words)"

record TitleCaseResponse =
  original :: string
  converted :: string
  rulesApplied :: "string list"

definition toTitleCase :: "string \<Rightarrow> TitleCaseResponse" where
  "toTitleCase text =
     \<lparr>original = text,
      converted = join '' '' (convertedWords (split_ws (toLowerCase text))),
      rulesApplied =
        [''Capitalized major words (nouns, verbs, adjectives)'',
         ''Kept articles lowercase (a, an, the)'',
         ''Kept prepositions lowercase (for, to, in, of, etc.)'',
         ''Capitalized first and last words'']\<rparr>"


section \<open>Keyword Density Analyzer\<close>

text \<open>
  \<^verbatim>\<open>content.toLowerCase().replace(/[^\w\s]/g, ' ').split(/\s+/).filter(word => word.length > 2)\<close>
\<close>

definition words_of :: "string \<Rightarrow> string list" where
  "words_of content =
     filter (\<lambda>word. length word > 2)
       (split_ws (map (\<lambda>c. if \<not> is_word c \<and> \<not> is_space c then CHR '' '' else c)
          (toLowerCase content)))"

text \<open>
  The \<^verbatim>\<open>Map\<close> \<open>wordCount\<close> is a list of entries in insertion order; \<^verbatim>\<open>set\<close> on a key
  that is present replaces the value where the entry stands.
  \<^verbatim>\<open>wordCount.set(word, (wordCount.get(word) || 0) + 1)\<close>
\<close>

definition count_word :: "(string \<times> nat) list \<Rightarrow> string \<Rightarrow> (string \<times> nat) list" where
  "count_word wordCount word =
     AList.update word ((case map_of wordCount word of None \<Rightarrow> 0 | Some n \<Rightarrow> n) + 1) wordCount"

definition wordCount_of :: "string list \<Rightarrow> (string \<times> nat) list" where
  "wordCount_of words = foldl count_word [] words"

datatype density_status = Low | Good | Optimal | High

record KeywordStat =
  word :: string
  frequency :: nat
  density :: jsnum
  status :: density_status

record KeywordDensityResponse =
  totalWords :: nat
  uniqueKeywords :: nat
  keywords' :: "KeywordStat list"
  avgDensity :: jsnum
  topKeywordDensity :: jsnum

text \<open>
  The callback of \<^verbatim>\<open>Array.from(wordCount.entries()).map(([word, frequency]) => ...)\<close>;
  \<open>n\<close> is \<open>totalWords\<close>, \<open>(w, f)\<close> is the entry \<open>[word, frequency]\<close> and \<open>d\<close> is the
  unrounded \<open>density\<close>.
\<close>

definition keywordStat :: "nat \<Rightarrow> string \<times> nat \<Rightarrow> KeywordStat" where
  "keywordStat n = (\<lambda>(w, f).
     let d = js_mul (js_div (Num (of_nat f)) (Num (of_nat n))) (Num 100)
     in \<lparr>word = w, frequency = f, density = toFixed2 d,
         status = (if js_lt d (Num 1) then Low
                   else if js_lt d (Num 2) then Good
                   else if js_lt d (Num 4) then Optimal
                   else High)\<rparr>)"

text \<open>
  \<^verbatim>\<open>Array.prototype.sort\<close> with a comparison function is a stable sort: \<open>x\<close> goes before
  the first element it does not compare greater than.
\<close>

fun insert_by :: "('a \<Rightarrow> 'a \<Rightarrow> int) \<Rightarrow> 'a \<Rightarrow> 'a list \<Rightarrow> 'a list" where
  "insert_by cmp x [] = [x]"
| "insert_by cmp x (y # ys) =
     (if cmp x y \<le> 0 then x # y # ys else y # insert_by cmp x ys)"

definition sort_by :: "('a \<Rightarrow> 'a \<Rightarrow> int) \<Rightarrow> 'a list \<Rightarrow> 'a list" where
  "sort_by cmp xs = foldr (insert_by cmp) xs []"

definition stats_of :: "string list \<Rightarrow> KeywordStat list" where
  "stats_of words = map (keywordStat (length words)) (wordCount_of words)"

definition keywords_of :: "string list \<Rightarrow> KeywordStat list" where
  "keywords_of words =
     take 20 (sort_by (\<lambda>a b. int (frequency b) - int (frequency a)) (stats_of words))"

definition analyze :: "string \<Rightarrow> KeywordDensityResponse" where
  "analyze content =
     (let words = words_of content;
          ks = keywords_of words
      in \<lparr>totalWords = length words,
          uniqueKeywords = length (wordCount_of words),
          keywords' = ks,
          avgDensity =
            toFixed2 (js_div (foldl (\<lambda>sum k. js_add sum (density k)) (Num 0) ks)
                             (Num (of_nat (length ks)))),
          topKeywordDensity = (case ks of [] \<Rightarrow> Num 0 | k # _ \<Rightarrow> or_zero (density k))\<rparr>)"


definition keyword_density_handler :: "string \<Rightarrow> error + KeywordDensityResponse" where
  "keyword_density_handler content =
     (if length content < 50 then Inl ValidationError else Inr (analyze content))"

section \<open>Blog Outline Generator: parsing the generated text\<close>

record OutlineSection =
  heading :: string
  level :: nat
  subsections :: "string list"

text \<open>\<^verbatim>\<open>trimmed.match(/^\d+\./)\<close>\<close>

definition is_header :: "string \<Rightarrow> bool" where
  "is_header trimmed =
     (takeWhile is_digit trimmed \<noteq> [] \<and> startsWith (dropWhile is_digit trimmed) ''.'')"

text \<open>\<^verbatim>\<open>trimmed.replace(/^\d+\.\s*/, '')\<close>\<close>

definition strip_number :: "string \<Rightarrow> string" where
  "strip_number trimmed =
     (if is_header trimmed then dropWhile is_space (drop 1 (dropWhile is_digit trimmed))
      else trimmed)"

text \<open>\<^verbatim>\<open>trimmed.replace(/^-\s*/, '')\<close>\<close>

definition strip_dash :: "string \<Rightarrow> string" where
  "strip_dash trimmed =
     (if startsWith trimmed ''-'' then dropWhile is_space (drop 1 trimmed) else trimmed)"

text \<open>\<^verbatim>\<open>aiResponse.split('\n').filter(line => line.trim())\<close>\<close>

definition lines_of :: "string \<Rightarrow> string list" where
  "lines_of aiResponse = filter (\<lambda>line. trim line \<noteq> []) (split_on (CHR 0x0A) aiResponse)"

text \<open>
  The body of the loop over the lines, on the state of the two variables \<open>sections\<close>
  and \<open>currentSection\<close> (\<open>None\<close> is \<^verbatim>\<open>null\<close>).
\<close>

fun parse_line ::
  "OutlineSection list \<times> OutlineSection option \<Rightarrow> string \<Rightarrow>
   OutlineSection list \<times> OutlineSection option" where
  "parse_line (sections, currentSection) line =
     (let trimmed = trim line in
      if is_header trimmed then
        ((case currentSection of None \<Rightarrow> sections | Some s \<Rightarrow> sections @ [s]),
         Some \<lparr>heading = strip_number trimmed, level = 2, subsections = []\<rparr>)
      else if startsWith trimmed ''-'' \<and> currentSection \<noteq> None then
        (sections,
         map_option (\<lambda>s. s\<lparr>subsections := subsections s @ [strip_dash trimmed]\<rparr>) currentSection)
      else (sections, currentSection))"

text \<open>The loop and the push of the section that is still open after it.\<close>

definition parse_sections :: "string list \<Rightarrow> OutlineSection list" where
  "parse_sections lines =
     (case foldl parse_line ([], None) lines of
        (sections, None) \<Rightarrow> sections
      | (sections, Some s) \<Rightarrow> sections @ [s])"

definition fallback_sections :: "string \<Rightarrow> OutlineSection list" where
  "fallback_sections topic =
     [\<lparr>heading = ''Introduction'', level = 2,
       subsections = [''Why '' @ topic @ '' matters'', ''What you'' @ [CHR 0x27] @ ''ll learn'']\<rparr>,
      \<lparr>heading = ''Main Content'', level = 2,
       subsections = [''Key concepts'', ''Best practices'', ''Common mistakes'']\<rparr>,
      \<lparr>heading = ''Conclusion'', level = 2,
       subsections = [''Key takeaways'', ''Next steps'']\<rparr>]"

definition outline_structure :: "string \<Rightarrow> string \<Rightarrow> OutlineSection list" where
  "outline_structure aiResponse topic =
     (let sections = parse_sections (lines_of aiResponse)
      in if length sections = 0 then fallback_sections topic else sections)"

text \<open>
  The outline as the specification words it, for comparison with the loop: every line
  that matches the header pattern starts a section of level 2 whose heading is the line
  with the leading number and period stripped (trimmed), and whose subsections are the
  lines starting with \<open>-\<close> that follow before the next header line, each with the
  leading \<open>-\<close> stripped (trimmed); every other line is ignored.
\<close>

fun spec_sections :: "string list \<Rightarrow> OutlineSection list" where
  "spec_sections [] = []"
| "spec_sections (line # rest) =
     (if is_header (trim line) then
        \<lparr>heading = trim (drop 1 (dropWhile is_digit (trim line))), level = 2,
         subsections = map (\<lambda>t. trim (drop 1 t)) (filter (\<lambda>t. startsWith t ''-'')
           (map trim (takeWhile (\<lambda>l. \<not> is_header (trim l)) rest)))\<rparr> # spec_sections rest
      else spec_sections rest)"

section \<open>Properties of the keyword density analyzer\<close>

subsection \<open>The frequency map\<close>

lemma sum_count_word:
  "sum_list (map snd (count_word m w)) = sum_list (map snd m) + 1"
  unfolding count_word_def
  by (induction m) (auto simp: AList.update.simps)

lemma sum_foldl_count_word:
  "sum_list (map snd (foldl count_word m ws)) = sum_list (map snd m) + length ws"
  by (induction ws arbitrary: m) (simp_all add: sum_count_word)

lemma sum_wordCount_of: "sum_list (map snd (wordCount_of ws)) = length ws"
  by (simp add: wordCount_of_def sum_foldl_count_word)

lemma distinct_foldl_count_word:
  "distinct (map fst m) \<Longrightarrow> distinct (map fst (foldl count_word m ws))"
  by (induction ws arbitrary: m) (simp_all add: count_word_def distinct_update)

lemma distinct_wordCount_of: "distinct (map fst (wordCount_of ws))"
  by (simp add: wordCount_of_def distinct_foldl_count_word)

lemma keys_count_word: "set (map fst (count_word m w)) = insert w (set (map fst m))"
  unfolding count_word_def update_keys by auto

lemma keys_foldl_count_word:
  "set (map fst (foldl count_word m ws)) = set (map fst m) \<union> set ws"
  by (induction ws arbitrary: m) (simp_all add: keys_count_word del: set_map)

lemma frequency_keywordStat: "frequency (keywordStat n e) = snd e"
  by (cases e) (simp add: keywordStat_def Let_def)

lemma word_keywordStat: "word (keywordStat n e) = fst e"
  by (cases e) (simp add: keywordStat_def Let_def)

lemma frequency_stats_of: "map frequency (stats_of ws) = map snd (wordCount_of ws)"
  by (simp add: stats_of_def frequency_keywordStat)

lemma word_stats_of: "map word (stats_of ws) = map fst (wordCount_of ws)"
  by (simp add: stats_of_def word_keywordStat)

text \<open>
  Claim C1. For every content string, the frequencies of all distinct tokens (the whole
  frequency map, before the list is cut to 20 entries) add up to \<open>totalWords\<close>, and
  \<open>totalWords\<close> is the number of tokens that remain after lower-casing, replacing every
  code unit that is neither a word character nor white space by a space, splitting on
  runs of white space and dropping the tokens of length at most 2.
\<close>

theorem frequencies_sum_to_totalWords:
  "totalWords (analyze content) =
     length (filter (\<lambda>w. 2 < length w)
       (split_ws (map (\<lambda>c. if \<not> is_word c \<and> \<not> is_space c then CHR '' '' else c)
          (toLowerCase content))))
   \<and> sum_list (map snd (wordCount_of (words_of content))) = totalWords (analyze content)
   \<and> sum_list (map frequency (stats_of (words_of content))) = totalWords (analyze content)
   \<and> distinct (map word (stats_of (words_of content)))
   \<and> set (map word (stats_of (words_of content))) = set (words_of content)"
proof -
  have "totalWords (analyze content) = length (words_of content)"
    by (simp add: analyze_def Let_def)
  moreover have "set (map fst (wordCount_of (words_of content))) = set (words_of content)"
    by (simp add: wordCount_of_def keys_foldl_count_word del: set_map)
  moreover have "length (words_of content) =
     length (filter (\<lambda>w. 2 < length w)
       (split_ws (map (\<lambda>c. if \<not> is_word c \<and> \<not> is_space c then CHR '' '' else c)
          (toLowerCase content))))"
    by (simp add: words_of_def)
  ultimately show ?thesis
    by (simp only: frequency_stats_of word_stats_of sum_wordCount_of distinct_wordCount_of
        simp_thms)
qed

subsection \<open>Sorting and truncation\<close>

lemma insert_by_insort:
  "insert_by (\<lambda>a b. int (f b) - int (f a)) x ys = insort_key (\<lambda>s. - int (f s)) x ys"
  by (induction ys) simp_all

lemma sort_by_sort_key:
  "sort_by (\<lambda>a b. int (f b) - int (f a)) xs = sort_key (\<lambda>s. - int (f s)) xs"
proof -
  have "insert_by (\<lambda>a b. int (f b) - int (f a)) = insort_key (\<lambda>s. - int (f s))"
    by (intro ext) (rule insert_by_insort)
  then show ?thesis by (simp add: sort_by_def sort_key_def)
qed

lemma sorted_sort_by:
  "sorted_wrt (\<lambda>a b. f b \<le> f a) (sort_by (\<lambda>a b. int (f b) - int (f a)) xs)"
proof -
  have "sorted (map (\<lambda>s. - int (f s)) (sort_key (\<lambda>s. - int (f s)) xs))"
    by (rule sorted_sort_key)
  then show ?thesis by (simp add: sort_by_sort_key sorted_map)
qed

lemma stable_sort_by:
  "filter (\<lambda>s. f s = k) (sort_by (\<lambda>a b. int (f b) - int (f a)) xs) = filter (\<lambda>s. f s = k) xs"
proof -
  have "filter (\<lambda>s. - int (f s) = - int k) (sort_key (\<lambda>s. - int (f s)) xs)
      = filter (\<lambda>s. - int (f s) = - int k) xs"
    by (rule sort_key_stable)
  then show ?thesis by (simp add: sort_by_sort_key)
qed

lemma prefix_filter_take: "prefix (filter P (take n xs)) (filter P xs)"
proof -
  have "filter P xs = filter P (take n xs) @ filter P (drop n xs)"
    by (metis append_take_drop_id filter_append)
  then show ?thesis by (simp add: prefix_def)
qed

text \<open>
  Claim C7. For every content string the returned keyword list has at most 20 entries
  and is sorted by frequency, largest first; entries of equal frequency keep the order
  in which their words entered the frequency map: the returned entries of frequency
  \<open>k\<close> are an initial part of the entries of frequency \<open>k\<close> in insertion order.
\<close>

theorem keywords_top20_sorted:
  "length (keywords' (analyze content)) \<le> 20
   \<and> sorted_wrt (\<lambda>a b. frequency b \<le> frequency a) (keywords' (analyze content))
   \<and> prefix (filter (\<lambda>s. frequency s = k) (keywords' (analyze content)))
        (filter (\<lambda>s. frequency s = k) (stats_of (words_of content)))
   \<and> map word (stats_of (words_of content)) = map fst (wordCount_of (words_of content))"
proof -
  let ?all = "sort_by (\<lambda>a b. int (frequency b) - int (frequency a)) (stats_of (words_of content))"
  have k: "keywords' (analyze content) = take 20 ?all"
    by (simp add: analyze_def Let_def keywords_of_def)
  have "sorted_wrt (\<lambda>a b. frequency b \<le> frequency a) (take 20 ?all)"
    by (rule sorted_wrt_take) (rule sorted_sort_by)
  moreover have "prefix (filter (\<lambda>s. frequency s = k) (take 20 ?all))
      (filter (\<lambda>s. frequency s = k) (stats_of (words_of content)))"
    using prefix_filter_take[of "\<lambda>s. frequency s = k" 20 ?all]
    by (simp add: stable_sort_by)
  ultimately show ?thesis
    by (simp add: k word_stats_of)
qed

subsection \<open>The average over an empty keyword list\<close>

text \<open>
  Claim C3. When the keyword list is empty, \<open>avgDensity\<close> should be a defined value
  such as 0. The content of 25 times \<open>"a "\<close> has 50 code units, so the schema accepts
  it; no token is longer than 2, the keyword list is empty, and \<open>avgDensity\<close> is the
  quotient \<open>0 / 0\<close>, that is NaN, while \<open>topKeywordDensity\<close> falls back to 0.
\<close>

theorem avgDensity_empty_keywords_NaN:
  "keyword_density_handler (concat (replicate 25 ''a '')) =
     Inr \<lparr>totalWords = 0, uniqueKeywords = 0, keywords' = [], avgDensity = NaN,
          topKeywordDensity = Num 0\<rparr>"
  by code_simp

section \<open>The rule descriptions of the title case converter\<close>

text \<open>
  Claim C9. For every input text the field \<open>rulesApplied\<close> is the same list of four rule
  descriptions, whatever the input and whichever rules fired.
\<close>

theorem rulesApplied_fixed:
  "rulesApplied (toTitleCase text) =
     [''Capitalized major words (nouns, verbs, adjectives)'',
      ''Kept articles lowercase (a, an, the)'',
      ''Kept prepositions lowercase (for, to, in, of, etc.)'',
      ''Capitalized first and last words'']
   \<and> length (rulesApplied (toTitleCase text)) = 4
   \<and> rulesApplied (toTitleCase text) = rulesApplied (toTitleCase text')"
  by (simp add: toTitleCase_def)

section \<open>Properties of the outline parser\<close>

subsection \<open>Trimmed lines\<close>

lemma trim_no_trailing: "trim l = [] \<or> \<not> is_space (last (trim l))"
proof (cases "dropWhile is_space (rev (dropWhile is_space l))")
  case Nil
  then show ?thesis by (simp add: trim_def)
next
  case (Cons c r)
  then have "\<not> is_space c"
    using hd_dropWhile[of is_space "rev (dropWhile is_space l)"] by auto
  then show ?thesis using Cons by (simp add: trim_def)
qed

lemma trim_suffix:
  assumes "suffix r (trim l)"
  shows "trim r = dropWhile is_space r"
proof (cases "dropWhile is_space r = []")
  case True
  show ?thesis unfolding trim_def True by simp
next
  case False
  let ?d = "dropWhile is_space r"
  have "suffix ?d (trim l)"
    using assms suffix_dropWhile suffix_order.trans by blast
  then obtain p where p: "trim l = p @ ?d" by (auto simp: suffix_def)
  then have "last (trim l) = last ?d" using False by simp
  moreover have "trim l \<noteq> []" using p False by auto
  ultimately have "\<not> is_space (last ?d)" using trim_no_trailing[of l] by auto
  then have "\<not> is_space (hd (rev ?d))" using False by (simp add: hd_rev)
  then have "dropWhile is_space (rev ?d) = rev ?d"
    using False by (cases "rev ?d") auto
  then show ?thesis by (simp add: trim_def)
qed

lemma strip_dash_trim: "startsWith (trim l) ''-'' \<Longrightarrow> strip_dash (trim l) = trim (drop 1 (trim l))"
  using trim_suffix[OF suffix_drop, of 1 l] by (simp add: strip_dash_def)

lemma strip_number_trim:
  "is_header (trim l) \<Longrightarrow> strip_number (trim l) = trim (drop 1 (dropWhile is_digit (trim l)))"
proof -
  have "suffix (drop 1 (dropWhile is_digit (trim l))) (trim l)"
    using suffix_drop suffix_dropWhile suffix_order.trans by blast
  then show "is_header (trim l) \<Longrightarrow> ?thesis"
    by (simp add: strip_number_def trim_suffix)
qed

lemma map_strip_dash_trim:
  "map strip_dash (filter (\<lambda>t. startsWith t ''-'') (map trim ls)) =
   map (\<lambda>t. trim (drop 1 t)) (filter (\<lambda>t. startsWith t ''-'') (map trim ls))"
  by (induction ls) (simp_all add: strip_dash_trim)

subsection \<open>The fallback\<close>

lemma foldl_parse_line_no_header:
  "\<forall>line \<in> set ls. \<not> is_header (trim line) \<Longrightarrow>
   foldl parse_line (secs, None) ls = (secs, None)"
  by (induction ls) (simp_all add: Let_def)

lemma outline_structure_empty: "outline_structure [] topic = fallback_sections topic"
  by (simp add: outline_structure_def lines_of_def parse_sections_def trim_def)

text \<open>
  Claim C5. For every generated text in which no non-blank line starts, after trimming,
  with one or more digits followed by a period (the empty text is one), the result is
  exactly the fixed skeleton of three sections, "Introduction", "Main Content" and
  "Conclusion", with the topic inserted into the first subsection; so the result is
  never the empty list.
\<close>

theorem fallback_when_no_numbered_line:
  assumes "\<forall>line \<in> set (lines_of rawText). \<not> is_header (trim line)"
  shows "outline_structure rawText topic =
     [\<lparr>heading = ''Introduction'', level = 2,
       subsections = [''Why '' @ topic @ '' matters'', ''What you'' @ [CHR 0x27] @ ''ll learn'']\<rparr>,
      \<lparr>heading = ''Main Content'', level = 2,
       subsections = [''Key concepts'', ''Best practices'', ''Common mistakes'']\<rparr>,
      \<lparr>heading = ''Conclusion'', level = 2,
       subsections = [''Key takeaways'', ''Next steps'']\<rparr>]
   \<and> outline_structure rawText topic \<noteq> []
   \<and> outline_structure [] topic = outline_structure rawText topic"
proof -
  have "parse_sections (lines_of rawText) = []"
    using foldl_parse_line_no_header[OF assms, of "[]"] by (simp add: parse_sections_def)
  then have "outline_structure rawText topic = fallback_sections topic"
    by (simp add: outline_structure_def)
  then show ?thesis
    by (simp add: outline_structure_empty) (simp add: fallback_sections_def)
qed

theorem fallback_when_no_numbered_line_witness:
  "outline_structure ''no numbered lines here'' ''My Topic'' =
     [\<lparr>heading = ''Introduction'', level = 2,
       subsections = [''Why My Topic matters'', ''What you'' @ [CHR 0x27] @ ''ll learn'']\<rparr>,
      \<lparr>heading = ''Main Content'', level = 2,
       subsections = [''Key concepts'', ''Best practices'', ''Common mistakes'']\<rparr>,
      \<lparr>heading = ''Conclusion'', level = 2,
       subsections = [''Key takeaways'', ''Next steps'']\<rparr>]
   \<and> lines_of ''no numbered lines here'' = [''no numbered lines here'']"
proof -
  have l: "lines_of ''no numbered lines here'' = [''no numbered lines here'']"
    by code_simp
  have h: "\<forall>line \<in> set (lines_of ''no numbered lines here''). \<not> is_header (trim line)"
    unfolding l by code_simp
  from fallback_when_no_numbered_line[OF h, of "''My Topic''"] l show ?thesis by simp
qed

subsection \<open>The loop against the specification\<close>

lemma foldl_parse_line_spec:
  "(case foldl parse_line (secs, cur) ls of
      (sections, None) \<Rightarrow> sections
    | (sections, Some s) \<Rightarrow> sections @ [s]) =
   secs @ (case cur of None \<Rightarrow> []
           | Some s \<Rightarrow> [s\<lparr>subsections := subsections s @
               map (\<lambda>t. trim (drop 1 t)) (filter (\<lambda>t. startsWith t ''-'')
                 (map trim (takeWhile (\<lambda>l. \<not> is_header (trim l)) ls)))\<rparr>])
   @ spec_sections ls"
proof (induction ls arbitrary: secs cur)
  case Nil
  then show ?case by (simp split: option.splits)
next
  case (Cons l ls)
  show ?case
  proof (cases "is_header (trim l)")
    case True
    then show ?thesis
      using Cons.IH[of "case cur of None \<Rightarrow> secs | Some s \<Rightarrow> secs @ [s]"
          "Some \<lparr>heading = strip_number (trim l), level = 2, subsections = []\<rparr>"]
      by (simp add: Let_def strip_number_trim split: option.splits)
  next
    case False
    then show ?thesis
      using Cons.IH[of secs cur]
        Cons.IH[of secs "map_option (\<lambda>s. s\<lparr>subsections := subsections s @ [trim (drop 1 (trim l))]\<rparr>) cur"]
      by (cases cur) (simp_all add: Let_def strip_dash_trim)
  qed
qed

lemma parse_sections_spec: "parse_sections ls = spec_sections ls"
  using foldl_parse_line_spec[of "[]" None ls] by (simp add: parse_sections_def)

text \<open>
  Claim C6. The parser reads the non-blank lines in order: a header line (digits, then a
  period) closes the open section and opens a new one of level 2 with the stripped line
  as heading, a line starting with \<open>-\<close> adds its stripped, trimmed rest to the open
  section, other lines are ignored, and the section open at the end is emitted. So the
  result is the list \<open>spec_sections\<close> of the lines (the fallback when it is empty),
  and the text of two numbered sections with three dashed lines yields the two sections
  "Getting Started" (with "Install", "Configure") and "Advanced" (with "Scale"), in
  this order.
\<close>

theorem outline_parse_line_by_line:
  "outline_structure rawText topic =
     (if spec_sections (lines_of rawText) = [] then fallback_sections topic
      else spec_sections (lines_of rawText))
   \<and> outline_structure
       (''1. Getting Started'' @ [CHR 0x0A] @ ''- Install'' @ [CHR 0x0A] @ ''- Configure''
          @ [CHR 0x0A] @ ''2. Advanced'' @ [CHR 0x0A] @ ''- Scale'') ''X'' =
     [\<lparr>heading = ''Getting Started'', level = 2, subsections = [''Install'', ''Configure'']\<rparr>,
      \<lparr>heading = ''Advanced'', level = 2, subsections = [''Scale'']\<rparr>]"
proof -
  have "outline_structure
       (''1. Getting Started'' @ [CHR 0x0A] @ ''- Install'' @ [CHR 0x0A] @ ''- Configure''
          @ [CHR 0x0A] @ ''2. Advanced'' @ [CHR 0x0A] @ ''- Scale'') ''X'' =
     [\<lparr>heading = ''Getting Started'', level = 2, subsections = [''Install'', ''Configure'']\<rparr>,
      \<lparr>heading = ''Advanced'', level = 2, subsections = [''Scale'']\<rparr>]"
    by code_simp
  then show ?thesis
    by (simp add: outline_structure_def parse_sections_spec)
qed

section \<open>Properties of the title case converter\<close>

subsection \<open>Code units, case mappings and white space\<close>







subsection \<open>Splitting on white space\<close>






subsection \<open>The converted words\<close>







subsection \<open>White space at the start and at the end of the text\<close>














subsection \<open>Converting the converted text again\<close>





lemma toLowerCase_append: "toLowerCase (xs @ ys) = toLowerCase xs @ toLowerCase ys"
  by (simp add: toLowerCase_def)

















section \<open>Density and status of a keyword\<close>

subsection \<open>Rounding to two decimals\<close>




subsection \<open>The entries of the frequency map\<close>








subsection \<open>A content whose rounded density leaves the band of its status\<close>










end
